theory Spec2Isabelle
  imports Main "HOL-Library.Multiset" "HOL-Library.List_Lexorder" "HOL-Library.Char_ord"
begin

section \<open>The companies table and the query executor\<close>

text \<open>
  A row of the \<^verbatim>\<open>companies\<close> table, with the field names the queries of
  \<^verbatim>\<open>src/models/company.js\<close> give the columns
  (\<^verbatim>\<open>num_employees AS "numEmployees"\<close>, \<^verbatim>\<open>logo_url AS "logoUrl"\<close>).
  The two nullable columns are options: \<open>None\<close> is SQL NULL, which is also what the
  driver binds for a JavaScript \<^verbatim>\<open>undefined\<close>.
\<close>

record company =
  handle :: string
  name :: string
  description :: string
  numEmployees :: "int option"
  logoUrl :: "string option"

text \<open>A JavaScript value bound as a query parameter of the UPDATE statement.\<close>

datatype jsval = JNull | JNum int | JStr string

text \<open>
  The exceptions of the module. \<open>BadRequestError\<close> and \<open>NotFoundError\<close> are the two
  classes of \<^verbatim>\<open>expressError\<close> that the source throws, each with its message;
  \<open>DbError\<close> is an error raised by the store itself and passed on unchanged.
\<close>

datatype error = BadRequestError string | NotFoundError string | DbError

text \<open>
  One constructor for each SQL text the source hands to \<^verbatim>\<open>db.query\<close>, with the
  bound parameters. The UPDATE statement is built at run time: it carries its SET list
  (column, parameter index), the index of the handle parameter and all parameters.
\<close>

datatype stmt =
    SelectHandle string
  | InsertCompany company
  | SelectAll
  | SelectByNameAndEmployeeNum string int int
  | SelectByName string
  | SelectByEmployeeNum int int
  | SelectCompany string
  | UpdateCompany "(string \<times> nat) list" nat "jsval list"
  | DeleteCompany string

text \<open>
  The store: the rows of the table, and the statements issued so far (the second field
  makes "no query is issued" something a theorem can say).
\<close>

record db =
  companies :: "company list"
  queries :: "stmt list"

definition issue :: "stmt \<Rightarrow> db \<Rightarrow> db" where
  "issue s d = d\<lparr>queries := queries d @ [s]\<rparr>"

subsection \<open>LIKE and ILIKE\<close>

text \<open>
  ASCII lower-casing: a letter \<^verbatim>\<open>A\<close>..\<^verbatim>\<open>Z\<close> (codes 65..90) gets bit 5 set,
  which adds 32; every other character stays.
\<close>

definition lower :: "char \<Rightarrow> char" where
  "lower c =
     (if 65 \<le> (of_char c :: nat) \<and> (of_char c :: nat) \<le> 90
      then (case c of Char b0 b1 b2 b3 b4 b5 b6 b7 \<Rightarrow> Char b0 b1 b2 b3 b4 True b6 b7)
      else c)"

text \<open>
  \<open>like p t\<close>: the text \<open>t\<close> matches the LIKE pattern \<open>p\<close>. In a pattern
  \<^verbatim>\<open>%\<close> stands for any run of characters, \<^verbatim>\<open>_\<close> for any one character, and a
  backslash makes the character after it stand for itself. (A pattern that ends in a
  lone backslash is an error of the store; it matches nothing here, and no pattern the
  source builds ends so, since each ends in \<^verbatim>\<open>%\<close>.)
\<close>

fun like :: "string \<Rightarrow> string \<Rightarrow> bool" where
  "like [] t = (t = [])"
| "like (p # ps) t =
     (if p = CHR ''%'' then
        (like ps t \<or> (case t of [] \<Rightarrow> False | c # t' \<Rightarrow> like (p # ps) t'))
      else if p = CHR ''_'' then
        (case t of [] \<Rightarrow> False | c # t' \<Rightarrow> like ps t')
      else if p = CHR 0x5C then
        (case ps of [] \<Rightarrow> False
         | q # qs \<Rightarrow> (case t of [] \<Rightarrow> False | c # t' \<Rightarrow> c = q \<and> like qs t'))
      else
        (case t of [] \<Rightarrow> False | c # t' \<Rightarrow> c = p \<and> like ps t'))"

definition ilike :: "string \<Rightarrow> string \<Rightarrow> bool" where
  "ilike t p = like (map lower p) (map lower t)"

subsection \<open>The statements\<close>

text \<open>
  \<^verbatim>\<open>ORDER BY name\<close> is a sort on the name column; strings are compared
  character by character.
\<close>

definition order_by_name :: "company list \<Rightarrow> company list" where
  "order_by_name rows = sort_key name rows"

text \<open>
  \<^verbatim>\<open>num_employees >= $lo AND num_employees <= $hi\<close>: a comparison with NULL is not
  true, so a row without an employee count never qualifies.
\<close>

definition employees_between :: "int \<Rightarrow> int \<Rightarrow> company \<Rightarrow> bool" where
  "employees_between lo hi c =
     (case numEmployees c of None \<Rightarrow> False | Some n \<Rightarrow> lo \<le> n \<and> n \<le> hi)"

text \<open>\<^verbatim>\<open>SELECT handle FROM companies WHERE handle = $1\<close>\<close>

definition select_handle :: "string \<Rightarrow> db \<Rightarrow> string list \<times> db" where
  "select_handle h d =
     (map handle (filter (\<lambda>c. handle c = h) (companies d)), issue (SelectHandle h) d)"

text \<open>
  \<^verbatim>\<open>INSERT INTO companies (...) VALUES ($1, $2, $3, $4, $5) RETURNING ...\<close>:
  the handle is the primary key, so the store refuses a second row with the same
  handle; otherwise the row is added and returned.
\<close>

definition insert_company :: "company \<Rightarrow> db \<Rightarrow> (error + company) \<times> db" where
  "insert_company c d =
     (if handle c \<in> set (map handle (companies d))
      then (Inl DbError, issue (InsertCompany c) d)
      else (Inr c, issue (InsertCompany c) (d\<lparr>companies := companies d @ [c]\<rparr>)))"

text \<open>\<^verbatim>\<open>SELECT ... FROM companies ORDER BY name\<close>\<close>

definition select_all :: "db \<Rightarrow> company list \<times> db" where
  "select_all d = (order_by_name (companies d), issue SelectAll d)"

text \<open>
  \<^verbatim>\<open>SELECT ... WHERE name ILIKE $1 AND num_employees >= $2 AND num_employees <= $3
  ORDER BY name\<close>
\<close>

definition select_by_name_and_employee_num ::
    "string \<Rightarrow> int \<Rightarrow> int \<Rightarrow> db \<Rightarrow> company list \<times> db" where
  "select_by_name_and_employee_num pat lo hi d =
     (order_by_name
        (filter (\<lambda>c. ilike (name c) pat \<and> employees_between lo hi c) (companies d)),
      issue (SelectByNameAndEmployeeNum pat lo hi) d)"

text \<open>\<^verbatim>\<open>SELECT ... WHERE name ILIKE $1 ORDER BY name\<close>\<close>

definition select_by_name :: "string \<Rightarrow> db \<Rightarrow> company list \<times> db" where
  "select_by_name pat d =
     (order_by_name (filter (\<lambda>c. ilike (name c) pat) (companies d)),
      issue (SelectByName pat) d)"

text \<open>
  \<^verbatim>\<open>SELECT ... WHERE num_employees >= $1 AND num_employees <= $2 ORDER BY name\<close>
\<close>

definition select_by_employee_num :: "int \<Rightarrow> int \<Rightarrow> db \<Rightarrow> company list \<times> db" where
  "select_by_employee_num lo hi d =
     (order_by_name (filter (employees_between lo hi) (companies d)),
      issue (SelectByEmployeeNum lo hi) d)"

text \<open>\<^verbatim>\<open>SELECT ... FROM companies WHERE handle = $1\<close>\<close>

definition select_company :: "string \<Rightarrow> db \<Rightarrow> company list \<times> db" where
  "select_company h d =
     (filter (\<lambda>c. handle c = h) (companies d), issue (SelectCompany h) d)"

text \<open>\<^verbatim>\<open>DELETE FROM companies WHERE handle = $1 RETURNING handle\<close>\<close>

definition delete_company :: "string \<Rightarrow> db \<Rightarrow> string list \<times> db" where
  "delete_company h d =
     (map handle (filter (\<lambda>c. handle c = h) (companies d)),
      issue (DeleteCompany h) (d\<lparr>companies := filter (\<lambda>c. handle c \<noteq> h) (companies d)\<rparr>))"

text \<open>
  \<^verbatim>\<open>UPDATE companies SET <setCols> WHERE handle = $k RETURNING ...\<close>.
  The store resolves each \<^verbatim>\<open>$n\<close> against the parameter list, checks each value
  against the type of its column (a text column takes a string, the integer column a
  number, and only the two nullable columns take NULL), refuses a column assigned
  twice, rewrites the rows with the given handle, and keeps the handle unique.
\<close>

datatype setter =
    SetHandle string
  | SetName string
  | SetDescription string
  | SetNumEmployees "int option"
  | SetLogoUrl "string option"

definition coerce :: "string \<Rightarrow> jsval \<Rightarrow> setter option" where
  "coerce col v =
     (if col = ''handle'' then
        (case v of JStr s \<Rightarrow> Some (SetHandle s) | _ \<Rightarrow> None)
      else if col = ''name'' then
        (case v of JStr s \<Rightarrow> Some (SetName s) | _ \<Rightarrow> None)
      else if col = ''description'' then
        (case v of JStr s \<Rightarrow> Some (SetDescription s) | _ \<Rightarrow> None)
      else if col = ''num_employees'' then
        (case v of JNum n \<Rightarrow> Some (SetNumEmployees (Some n))
         | JNull \<Rightarrow> Some (SetNumEmployees None) | _ \<Rightarrow> None)
      else if col = ''logo_url'' then
        (case v of JStr s \<Rightarrow> Some (SetLogoUrl (Some s))
         | JNull \<Rightarrow> Some (SetLogoUrl None) | _ \<Rightarrow> None)
      else None)"

fun apply_setter :: "setter \<Rightarrow> company \<Rightarrow> company" where
  "apply_setter (SetHandle s) c = c\<lparr>handle := s\<rparr>"
| "apply_setter (SetName s) c = c\<lparr>name := s\<rparr>"
| "apply_setter (SetDescription s) c = c\<lparr>description := s\<rparr>"
| "apply_setter (SetNumEmployees n) c = c\<lparr>numEmployees := n\<rparr>"
| "apply_setter (SetLogoUrl u) c = c\<lparr>logoUrl := u\<rparr>"

definition param :: "jsval list \<Rightarrow> nat \<Rightarrow> jsval option" where
  "param ps i = (if 1 \<le> i \<and> i \<le> length ps then Some (ps ! (i - 1)) else None)"

fun bind_set :: "(string \<times> nat) list \<Rightarrow> jsval list \<Rightarrow> setter list option" where
  "bind_set [] ps = Some []"
| "bind_set ((col, i) # rest) ps =
     (case param ps i of
        None \<Rightarrow> None
      | Some v \<Rightarrow>
          (case coerce col v of
             None \<Rightarrow> None
           | Some s \<Rightarrow>
               (case bind_set rest ps of None \<Rightarrow> None | Some ss \<Rightarrow> Some (s # ss))))"

definition update_companies ::
    "(string \<times> nat) list \<Rightarrow> nat \<Rightarrow> jsval list \<Rightarrow> db \<Rightarrow> (error + company list) \<times> db" where
  "update_companies setCols handleVarIdx params d =
     (let d' = issue (UpdateCompany setCols handleVarIdx params) d in
      if setCols = [] \<or> \<not> distinct (map fst setCols) then (Inl DbError, d')
      else
        (case bind_set setCols params of
           None \<Rightarrow> (Inl DbError, d')
         | Some ss \<Rightarrow>
             (case param params handleVarIdx of
                Some (JStr h) \<Rightarrow>
                  (let tbl = map (\<lambda>c. if handle c = h then fold apply_setter ss c else c)
                               (companies d)
                   in if distinct (map handle tbl)
                      then (Inr (map (fold apply_setter ss)
                                   (filter (\<lambda>c. handle c = h) (companies d))),
                            d'\<lparr>companies := tbl\<rparr>)
                      else (Inl DbError, d'))
              | _ \<Rightarrow> (Inl DbError, d'))))"

section \<open>JavaScript values in \<^verbatim>\<open>findAll\<close>\<close>

text \<open>
  The three fields of the filter are optional: \<open>None\<close> is \<^verbatim>\<open>undefined\<close>. A
  bound that is present is an integer number, the name a string.
  \<^verbatim>\<open>Number(undefined)\<close> is NaN, and every comparison with NaN is false.
  Truthiness: \<^verbatim>\<open>undefined\<close>, the number 0 and the empty string are falsy.
\<close>

datatype jsnum = NaN | Num int

definition Number :: "int option \<Rightarrow> jsnum" where
  "Number v = (case v of None \<Rightarrow> NaN | Some n \<Rightarrow> Num n)"

fun js_gt :: "jsnum \<Rightarrow> jsnum \<Rightarrow> bool" where
  "js_gt (Num a) (Num b) = (a > b)"
| "js_gt _ _ = False"

definition truthy_num :: "int option \<Rightarrow> bool" where
  "truthy_num v = (case v of None \<Rightarrow> False | Some n \<Rightarrow> n \<noteq> 0)"

definition truthy_str :: "string option \<Rightarrow> bool" where
  "truthy_str v = (case v of None \<Rightarrow> False | Some s \<Rightarrow> s \<noteq> [])"

text \<open>\<^verbatim>\<open>v || dflt\<close> for a bound \<open>v\<close> and a number \<open>dflt\<close>.\<close>

definition or_default :: "int option \<Rightarrow> int \<Rightarrow> int" where
  "or_default v dflt = (case v of None \<Rightarrow> dflt | Some n \<Rightarrow> if n \<noteq> 0 then n else dflt)"

text \<open>A template literal prints \<^verbatim>\<open>undefined\<close> as the word.\<close>

definition template :: "string option \<Rightarrow> string" where
  "template v = (case v of None \<Rightarrow> ''undefined'' | Some s \<Rightarrow> s)"

section \<open>The operations of \<^verbatim>\<open>Company\<close>\<close>

text \<open>
  Each operation takes the store and returns its result, or the exception it throws,
  with the store after it.
\<close>

definition create :: "company \<Rightarrow> db \<Rightarrow> (error + company) \<times> db" where
  "create data d =
     (case select_handle (handle data) d of
        (duplicateCheck, d1) \<Rightarrow>
          if duplicateCheck \<noteq> []
          then (Inl (BadRequestError (''Duplicate company: '' @ handle data)), d1)
          else insert_company data d1)"

definition findAllByNameAndEmployeeNum ::
    "string option \<Rightarrow> int \<Rightarrow> int \<Rightarrow> db \<Rightarrow> company list \<times> db" where
  "findAllByNameAndEmployeeNum nm minEmployees maxEmployees d =
     select_by_name_and_employee_num (''%'' @ template nm @ ''%'') minEmployees maxEmployees d"

definition findAllByName :: "string option \<Rightarrow> db \<Rightarrow> company list \<times> db" where
  "findAllByName nm d = select_by_name (''%'' @ template nm @ ''%'') d"

definition findAllByEmployeeNum :: "int \<Rightarrow> int \<Rightarrow> db \<Rightarrow> company list \<times> db" where
  "findAllByEmployeeNum minEmployees maxEmployees d =
     select_by_employee_num minEmployees maxEmployees d"

definition findAll ::
    "string option \<Rightarrow> int option \<Rightarrow> int option \<Rightarrow> db \<Rightarrow> (error + company list) \<times> db" where
  "findAll nm minEmployees maxEmployees d =
     (if js_gt (Number minEmployees) (Number maxEmployees)
      then (Inl (BadRequestError ''minEmployees cannot be greater than maxEmployees''), d)
      else
        (case
           (if truthy_str nm \<and> (truthy_num minEmployees \<or> truthy_num maxEmployees) then
              findAllByNameAndEmployeeNum nm
                (or_default minEmployees 0) (or_default maxEmployees 1000000) d
            else if \<not> truthy_str nm \<and> (truthy_num minEmployees \<or> truthy_num maxEmployees) then
              findAllByEmployeeNum
                (or_default minEmployees 0) (or_default maxEmployees 1000000) d
            else if truthy_str nm \<and> \<not> (truthy_num minEmployees \<and> truthy_num maxEmployees) then
              findAllByName nm d
            else select_all d)
         of (rows, d') \<Rightarrow> (Inr rows, d')))"

definition get :: "string \<Rightarrow> db \<Rightarrow> (error + company) \<times> db" where
  "get h d =
     (case select_company h d of
        (rows, d') \<Rightarrow>
          (case rows of
             [] \<Rightarrow> (Inl (NotFoundError (''No company: '' @ h)), d')
           | company # _ \<Rightarrow> (Inr company, d')))"

text \<open>
  Modelled from the spec: \<^verbatim>\<open>sqlForPartialUpdate\<close> of \<^verbatim>\<open>helpers/sql\<close>, which is
  not among the sources. Its contract: from a sparse field map and a map of aliases
  it makes one \<^verbatim>\<open>column = $n\<close> fragment per provided field, numbered from 1, with
  the alias if there is one and the field name otherwise, and the bind values in the
  same order; it fails with a BadRequest error on an empty field map (the message is
  not specified). A field map is a list of keys with their values, in the order of the
  object's keys.
\<close>

definition sqlForPartialUpdate ::
    "(string \<times> jsval) list \<Rightarrow> (string \<times> string) list
       \<Rightarrow> error + ((string \<times> nat) list \<times> jsval list)" where
  "sqlForPartialUpdate dataToUpdate jsToSql =
     (if dataToUpdate = [] then Inl (BadRequestError ''No data'')
      else Inr
        (map (\<lambda>(idx, k). ((case map_of jsToSql k of Some col \<Rightarrow> col | None \<Rightarrow> k), idx + 1))
           (enumerate 0 (map fst dataToUpdate)),
         map snd dataToUpdate))"

definition update :: "string \<Rightarrow> (string \<times> jsval) list \<Rightarrow> db \<Rightarrow> (error + company) \<times> db" where
  "update h data d =
     (case sqlForPartialUpdate data
             [(''numEmployees'', ''num_employees''), (''logoUrl'', ''logo_url'')] of
        Inl e \<Rightarrow> (Inl e, d)
      | Inr (setCols, vals) \<Rightarrow>
          (let handleVarIdx = length vals + 1 in
           case update_companies setCols handleVarIdx (vals @ [JStr h]) d of
             (Inl e, d') \<Rightarrow> (Inl e, d')
           | (Inr rows, d') \<Rightarrow>
               (case rows of
                  [] \<Rightarrow> (Inl (NotFoundError (''No company: '' @ h)), d')
                | company # _ \<Rightarrow> (Inr company, d'))))"

definition remove :: "string \<Rightarrow> db \<Rightarrow> (error + unit) \<times> db" where
  "remove h d =
     (case delete_company h d of
        (rows, d') \<Rightarrow>
          (case rows of
             [] \<Rightarrow> (Inl (NotFoundError (''No company: '' @ h)), d')
           | company # _ \<Rightarrow> (Inr (), d')))"

section \<open>Vocabulary of the specification\<close>

text \<open>
  The sequence of updates of claim C1: each update runs on the store the one before it
  left, whether it returned or threw.
\<close>

fun updates :: "(string \<times> (string \<times> jsval) list) list \<Rightarrow> db \<Rightarrow> db" where
  "updates [] d = d"
| "updates ((h, data) # us) d = updates us (snd (update h data d))"

text \<open>
  The field maps the documentation of \<^verbatim>\<open>update\<close> allows:
  "Data can include: {name, description, numEmployees, logoUrl}". \<open>documented\<close> looks
  at the keys only; \<open>partial_company\<close> is a non-empty partial company record: no key
  twice, and each value of the type of its field.
\<close>

definition documented :: "(string \<times> jsval) list \<Rightarrow> bool" where
  "documented data =
     list_all (\<lambda>(k, v). k \<in> set [''name'', ''description'', ''numEmployees'', ''logoUrl''])
       data"






text \<open>
  Case-insensitive substring: \<open>contains_ci n s\<close> when the lower-cased \<open>s\<close> has the
  lower-cased \<open>n\<close> as a run of consecutive characters. A string is \<open>plain\<close> when it
  has none of the three characters that LIKE reads specially.
\<close>

fun starts_with :: "string \<Rightarrow> string \<Rightarrow> bool" where
  "starts_with [] t = True"
| "starts_with (x # xs) [] = False"
| "starts_with (x # xs) (y # ys) = (x = y \<and> starts_with xs ys)"

fun substring :: "string \<Rightarrow> string \<Rightarrow> bool" where
  "substring n [] = (n = [])"
| "substring n (c # t) = (starts_with n (c # t) \<or> substring n t)"

definition contains_ci :: "string \<Rightarrow> string \<Rightarrow> bool" where
  "contains_ci n s = substring (map lower n) (map lower s)"

definition wildcard :: "char \<Rightarrow> bool" where
  "wildcard c = (c = CHR ''%'' \<or> c = CHR ''_'' \<or> c = CHR 0x5C)"

definition plain :: "string \<Rightarrow> bool" where
  "plain s = list_all (\<lambda>c. \<not> wildcard c) s"

subsection \<open>Example stores\<close>

definition acme :: company where
  "acme = \<lparr>handle = ''acme'', name = ''Acme Net'', description = ''tools'',
            numEmployees = Some 42, logoUrl = None\<rparr>"

definition zed :: company where
  "zed = \<lparr>handle = ''zed'', name = ''Zed Network'', description = ''cables'',
           numEmployees = None, logoUrl = Some ''http://z.img''\<rparr>"

definition store1 :: db where
  "store1 = \<lparr>companies = [acme], queries = []\<rparr>"

definition store2 :: db where
  "store2 = \<lparr>companies = [acme, zed], queries = []\<rparr>"

subsection \<open>Auxiliary functions of the proofs\<close>

text \<open>
  The column \<^verbatim>\<open>update\<close> assigns for a key, and the assignments the store derives
  from a field map when every parameter index resolves to the value of its key.
\<close>

definition column :: "string \<Rightarrow> string" where
  "column k =
     (case map_of [(''numEmployees'', ''num_employees''), (''logoUrl'', ''logo_url'')] k of
        Some col \<Rightarrow> col | None \<Rightarrow> k)"

fun coerce_all :: "(string \<times> jsval) list \<Rightarrow> setter list option" where
  "coerce_all [] = Some []"
| "coerce_all ((k, v) # rest) =
     (case coerce (column k) v of
        None \<Rightarrow> None
      | Some s \<Rightarrow> (case coerce_all rest of None \<Rightarrow> None | Some ss \<Rightarrow> Some (s # ss)))"

section \<open>Lemmas\<close>

subsection \<open>Queries\<close>



lemma sorted_order_by_name: "sorted (map name (order_by_name rows))"
  by (simp add: order_by_name_def)

lemma mset_order_by_name: "mset (order_by_name rows) = mset rows"
  by (simp add: order_by_name_def)




subsection \<open>LIKE patterns\<close>

lemma starts_with_iff: "starts_with n t \<longleftrightarrow> (\<exists>v. t = n @ v)"
  by (induction n t rule: starts_with.induct) auto

lemma substring_iff: "substring n t \<longleftrightarrow> (\<exists>u v. t = u @ n @ v)"
proof (induction t)
  case Nil
  then show ?case by auto
next
  case (Cons c t)
  show ?case
  proof
    assume "substring n (c # t)"
    then consider "starts_with n (c # t)" | "substring n t" by auto
    then show "\<exists>u v. c # t = u @ n @ v"
    proof cases
      case 1
      then obtain v where "c # t = n @ v" by (auto simp: starts_with_iff)
      then have "c # t = [] @ n @ v" by simp
      then show ?thesis by blast
    next
      case 2
      then obtain u v where "t = u @ n @ v" using Cons.IH by blast
      then have "c # t = (c # u) @ n @ v" by simp
      then show ?thesis by blast
    qed
  next
    assume "\<exists>u v. c # t = u @ n @ v"
    then obtain u v where uv: "c # t = u @ n @ v" by blast
    show "substring n (c # t)"
    proof (cases u)
      case Nil
      with uv have "starts_with n (c # t)" by (auto simp: starts_with_iff)
      then show ?thesis by simp
    next
      case (Cons a u')
      with uv have "t = u' @ n @ v" by simp
      then have "substring n t" using Cons.IH by blast
      then show ?thesis by simp
    qed
  qed
qed

lemma like_percent: "like (CHR ''%'' # ps) t \<longleftrightarrow> (\<exists>u v. t = u @ v \<and> like ps v)"
proof (induction t)
  case Nil
  then show ?case by simp
next
  case (Cons c t)
  have "like (CHR ''%'' # ps) (c # t) \<longleftrightarrow> like ps (c # t) \<or> like (CHR ''%'' # ps) t"
    by simp
  also have "\<dots> \<longleftrightarrow> like ps (c # t) \<or> (\<exists>u v. t = u @ v \<and> like ps v)"
    using Cons.IH by simp
  also have "\<dots> \<longleftrightarrow> (\<exists>u v. c # t = u @ v \<and> like ps v)"
    by (auto simp: Cons_eq_append_conv)
  finally show ?case .
qed

lemma like_plain_char:
  "\<not> wildcard p \<Longrightarrow> like (p # ps) t \<longleftrightarrow> (\<exists>t'. t = p # t' \<and> like ps t')"
  by (cases t) (auto simp: wildcard_def)

lemma like_plain: "plain n \<Longrightarrow> like (n @ ps) t \<longleftrightarrow> (\<exists>t'. t = n @ t' \<and> like ps t')"
proof (induction n arbitrary: t)
  case Nil
  then show ?case by simp
next
  case (Cons p n)
  then have p: "\<not> wildcard p" and n: "plain n" by (simp_all add: plain_def)
  have "like ((p # n) @ ps) t \<longleftrightarrow> (\<exists>t'. t = p # t' \<and> like (n @ ps) t')"
    using like_plain_char [OF p] by simp
  also have "\<dots> \<longleftrightarrow> (\<exists>t'. t = p # t' \<and> (\<exists>t''. t' = n @ t'' \<and> like ps t''))"
    using Cons.IH [OF n] by simp
  also have "\<dots> \<longleftrightarrow> (\<exists>t'. t = (p # n) @ t' \<and> like ps t')"
    by auto
  finally show ?case .
qed

lemma like_contains:
  assumes "plain n"
  shows "like (''%'' @ n @ ''%'') t \<longleftrightarrow> substring n t"
proof -
  have all: "like ''%'' v" for v
    using like_percent [of "[]" v] by simp
  have "like (''%'' @ n @ ''%'') t \<longleftrightarrow> (\<exists>u v. t = u @ v \<and> like (n @ ''%'') v)"
    using like_percent [of "n @ ''%''" t] by simp
  also have "\<dots> \<longleftrightarrow> (\<exists>u v. t = u @ v \<and> (\<exists>w. v = n @ w))"
    using like_plain [OF assms, of "''%''"] all by simp
  also have "\<dots> \<longleftrightarrow> substring n t"
    by (auto simp: substring_iff)
  finally show ?thesis .
qed

lemma lower_wildcard: "wildcard (lower c) \<longleftrightarrow> wildcard c"
  by (cases c) (auto simp: lower_def wildcard_def)

lemma plain_lower: "plain n \<Longrightarrow> plain (map lower n)"
  by (induction n) (simp_all add: plain_def lower_wildcard)

lemma lower_percent: "lower CHR ''%'' = CHR ''%''"
  by (simp add: lower_def)

lemma ilike_contains:
  assumes "plain n"
  shows "ilike s (''%'' @ n @ ''%'') \<longleftrightarrow> contains_ci n s"
  using like_contains [OF plain_lower [OF assms], of "map lower s"]
  by (simp add: ilike_def contains_ci_def lower_percent)

subsection \<open>The UPDATE statement\<close>

lemma param_append:
  "param (pre @ v # suf) (length pre + 1) = Some v"
  by (simp add: param_def)

lemma bind_set_enumerate:
  "bind_set (map (\<lambda>(idx, k). (column k, idx + 1)) (enumerate (length pre) (map fst data)))
     (pre @ map snd data @ suf) = coerce_all data"
proof (induction data arbitrary: pre)
  case Nil
  then show ?case by simp
next
  case (Cons kv data)
  obtain k v where kv: "kv = (k, v)" by (cases kv)
  have "bind_set (map (\<lambda>(idx, k). (column k, idx + 1))
            (enumerate (length (pre @ [v])) (map fst data)))
          ((pre @ [v]) @ map snd data @ suf) = coerce_all data"
    by (rule Cons.IH)
  then show ?case
    using param_append [of pre v "map snd data @ suf"]
    by (simp add: kv split: option.split)
qed

lemma setCols_columns:
  "map fst (map (\<lambda>(idx, k). (column k, idx + 1)) (enumerate n ks)) = map column ks"
  by (induction ks arbitrary: n) simp_all

lemma companies_issue: "companies (issue s d) = companies d"
  by (simp add: issue_def)

lemma update_store:
  assumes "data \<noteq> []"
  shows "\<exists>sc kk ps.
           update h data d =
             (case update_companies sc kk ps d of
                (Inl e, d') \<Rightarrow> (Inl e, d')
              | (Inr rows, d') \<Rightarrow>
                  (case rows of
                     [] \<Rightarrow> (Inl (NotFoundError (''No company: '' @ h)), d')
                   | company # _ \<Rightarrow> (Inr company, d')))
           \<and> sc \<noteq> [] \<and> map fst sc = map column (map fst data)
           \<and> bind_set sc ps = coerce_all data \<and> param ps kk = Some (JStr h)"
proof -
  define sc where "sc = map (\<lambda>(idx, k). (column k, idx + 1)) (enumerate 0 (map fst data))"
  define ps where "ps = map snd data @ [JStr h]"
  define kk where "kk = length (map snd data) + 1"
  have s: "sqlForPartialUpdate data
             [(''numEmployees'', ''num_employees''), (''logoUrl'', ''logo_url'')] =
           Inr (sc, map snd data)"
    using assms by (simp add: sqlForPartialUpdate_def column_def sc_def)
  have ne: "sc \<noteq> []"
    using assms by (cases data) (simp_all add: sc_def)
  have cols: "map fst sc = map column (map fst data)"
    unfolding sc_def by (rule setCols_columns)
  have b: "bind_set sc ps = coerce_all data"
    using bind_set_enumerate [of "[]" data "[JStr h]"] by (simp add: sc_def ps_def)
  have p: "param ps kk = Some (JStr h)"
    using param_append [of "map snd data" "JStr h" "[]"] by (simp add: ps_def kk_def)
  have u: "update h data d =
      (case update_companies sc kk ps d of
             (Inl e, d') \<Rightarrow> (Inl e, d')
           | (Inr rows, d') \<Rightarrow>
               (case rows of
                  [] \<Rightarrow> (Inl (NotFoundError (''No company: '' @ h)), d')
                | company # _ \<Rightarrow> (Inr company, d')))"
    unfolding update_def s ps_def kk_def by (simp add: Let_def)
  from u ne cols b p show ?thesis by blast
qed


lemma update_companies_rows:
  "companies (snd (update_companies sc kk ps d)) = companies d
   \<or> (\<exists>ss h. bind_set sc ps = Some ss
        \<and> companies (snd (update_companies sc kk ps d)) =
            map (\<lambda>c. if handle c = h then fold apply_setter ss c else c) (companies d))"
  by (auto simp: update_companies_def Let_def companies_issue
      split: option.split jsval.split)

lemma update_rows:
  "companies (snd (update h data d)) = companies d
   \<or> (\<exists>ss h'. coerce_all data = Some ss
        \<and> companies (snd (update h data d)) =
            map (\<lambda>c. if handle c = h' then fold apply_setter ss c else c) (companies d))"
proof (cases "data = []")
  case True
  then show ?thesis by (simp add: update_def sqlForPartialUpdate_def)
next
  case False
  obtain sc kk ps where u: "update h data d =
      (case update_companies sc kk ps d of
             (Inl e, d') \<Rightarrow> (Inl e, d')
           | (Inr rows, d') \<Rightarrow>
               (case rows of
                  [] \<Rightarrow> (Inl (NotFoundError (''No company: '' @ h)), d')
                | company # _ \<Rightarrow> (Inr company, d')))"
    and b: "bind_set sc ps = coerce_all data"
    using update_store [OF False] by blast
  have "companies (snd (update h data d)) = companies (snd (update_companies sc kk ps d))"
    by (simp add: u split: prod.split sum.split list.split)
  then show ?thesis
    using update_companies_rows [of sc kk ps d] by (simp add: b)
qed








lemma coerce_documented_handle:
  "k \<in> set [''name'', ''description'', ''numEmployees'', ''logoUrl''] \<Longrightarrow>
   coerce (column k) v = Some s \<Longrightarrow> handle (apply_setter s c) = handle c"
  by (auto simp: coerce_def column_def split: if_splits jsval.splits)

lemma coerce_all_handle:
  "documented data \<Longrightarrow> coerce_all data = Some ss \<Longrightarrow> handle (fold apply_setter ss c) = handle c"
proof (induction data arbitrary: ss c)
  case Nil
  then show ?case by simp
next
  case (Cons kv data)
  obtain k v where kv: "kv = (k, v)" by (cases kv)
  from Cons.prems(1) have k: "k \<in> set [''name'', ''description'', ''numEmployees'', ''logoUrl'']"
    and doc: "documented data"
    by (simp_all add: documented_def kv)
  from Cons.prems(2) obtain s ss' where s: "coerce (column k) v = Some s"
    and ss': "coerce_all data = Some ss'" and ss: "ss = s # ss'"
    by (auto simp: kv split: option.splits)
  have "handle (fold apply_setter ss' (apply_setter s c)) = handle (apply_setter s c)"
    by (rule Cons.IH [OF doc ss'])
  also have "\<dots> = handle c"
    by (rule coerce_documented_handle [OF k s])
  finally show ?case by (simp add: ss)
qed

lemma update_handles:
  assumes "documented data"
  shows "map handle (companies (snd (update h data d))) = map handle (companies d)"
proof -
  consider "companies (snd (update h data d)) = companies d"
    | ss h' where "coerce_all data = Some ss"
        "companies (snd (update h data d)) =
           map (\<lambda>c. if handle c = h' then fold apply_setter ss c else c) (companies d)"
    using update_rows [of h data d] by blast
  then show ?thesis
  proof cases
    case 1
    then show ?thesis by simp
  next
    case 2
    have "handle (fold apply_setter ss c) = handle c" for c
      by (rule coerce_all_handle [OF assms 2(1)])
    then show ?thesis
      by (simp add: 2(2) comp_def)
  qed
qed



subsection \<open>Rows after an update\<close>



lemma filter_handle_empty:
  "filter (\<lambda>c. handle c = h) xs = [] \<longleftrightarrow> h \<notin> set (map handle xs)"
  by (induction xs) auto

lemma ilike_examples:
  "ilike ''Network Inc'' ''%net%''" "ilike ''Internet Co'' ''%net%''"
  "\<not> ilike ''Software LLC'' ''%net%''"
  by (simp_all add: ilike_def lower_def)

section \<open>The claims\<close>

text \<open>
  \<^bold>\<open>C1 (amended).\<close> The handle of a row never changes under updates whose field maps
  have only the documented keys name, description, numEmployees and logoUrl: after any
  sequence of such updates the table has the same handles, row by row. \<open>get\<close> and
  \<open>findAll\<close> leave the rows alone; \<open>create\<close> adds at most the handle of its input and
  removes none; \<open>remove\<close> takes away the rows of its handle and no other.
\<close>

theorem handle_immutable:
  assumes "list_all (\<lambda>(h, data). documented data) us"
  shows "map handle (companies (updates us d)) = map handle (companies d)
       \<and> companies (snd (get h d)) = companies d
       \<and> companies (snd (findAll nm mn mx d)) = companies d
       \<and> map handle (companies (snd (create c d))) =
           (if handle c \<in> set (map handle (companies d)) then map handle (companies d)
            else map handle (companies d) @ [handle c])
       \<and> map handle (companies (snd (remove h d))) =
           filter (\<lambda>x. x \<noteq> h) (map handle (companies d))"
proof (intro conjI)
  show "map handle (companies (updates us d)) = map handle (companies d)"
    using assms
  proof (induction us arbitrary: d)
    case Nil
    then show ?case by simp
  next
    case (Cons u us)
    obtain h' data where u: "u = (h', data)" by (cases u)
    from Cons.prems have doc: "documented data"
      and rest: "list_all (\<lambda>(h, data). documented data) us"
      by (simp_all add: u)
    have "map handle (companies (updates us (snd (update h' data d)))) =
        map handle (companies (snd (update h' data d)))"
      by (rule Cons.IH [OF rest])
    also have "\<dots> = map handle (companies d)"
      by (rule update_handles [OF doc])
    finally show ?case by (simp add: u)
  qed
  show "companies (snd (get h d)) = companies d"
    by (simp add: get_def select_company_def companies_issue split: list.split)
  show "companies (snd (findAll nm mn mx d)) = companies d"
    by (simp add: findAll_def findAllByNameAndEmployeeNum_def findAllByEmployeeNum_def
        findAllByName_def select_all_def select_by_name_and_employee_num_def
        select_by_employee_num_def select_by_name_def companies_issue)
  show "map handle (companies (snd (create c d))) =
           (if handle c \<in> set (map handle (companies d)) then map handle (companies d)
            else map handle (companies d) @ [handle c])"
    by (simp add: create_def select_handle_def insert_company_def companies_issue
        filter_handle_empty)
  show "map handle (companies (snd (remove h d))) =
           filter (\<lambda>x. x \<noteq> h) (map handle (companies d))"
    by (simp add: remove_def delete_company_def companies_issue filter_map comp_def
        split: list.split)
qed

theorem handle_immutable_witness:
  "list_all (\<lambda>(h, data). documented data)
     [(''acme'', [(''name'', JStr ''Apex'')]), (''zed'', [(''logoUrl'', JNull)])]
   \<and> map handle (companies (updates
        [(''acme'', [(''name'', JStr ''Apex'')]), (''zed'', [(''logoUrl'', JNull)])] store2)) =
       [''acme'', ''zed'']"
proof -
  have h: "list_all (\<lambda>(h, data). documented data)
     [(''acme'', [(''name'', JStr ''Apex'')]), (''zed'', [(''logoUrl'', JNull)])]"
    by (simp add: documented_def)
  have e: "map handle (companies store2) = [''acme'', ''zed'']"
    by (simp add: store2_def acme_def zed_def)
  show ?thesis
    using h handle_immutable [OF h, of store2] unfolding e by blast
qed

text \<open>
  As C1 was first stated, for any field map that the partial-update compiler accepts,
  it fails: the compiler accepts \<^verbatim>\<open>{handle: "zed"}\<close> and compiles it to an
  assignment of the handle column, and the update renames the row \<^verbatim>\<open>acme\<close>.
\<close>

theorem handle_immutable_counterexample:
  "sqlForPartialUpdate [(''handle'', JStr ''zed'')]
       [(''numEmployees'', ''num_employees''), (''logoUrl'', ''logo_url'')] =
     Inr ([(''handle'', 1)], [JStr ''zed''])
   \<and> map handle (companies store1) = [''acme'']
   \<and> fst (update ''acme'' [(''handle'', JStr ''zed'')] store1) = Inr (acme\<lparr>handle := ''zed''\<rparr>)
   \<and> map handle (companies (snd (update ''acme'' [(''handle'', JStr ''zed'')] store1))) =
       [''zed'']"
  by (simp add: sqlForPartialUpdate_def update_def update_companies_def param_def coerce_def
      issue_def store1_def acme_def Let_def)

text \<open>
  \<^bold>\<open>C2.\<close> A \<open>create\<close> whose handle is already in the table throws the
  BadRequestError "Duplicate company: <handle>" (the duplicate-entity error, with the
  handle in its message) and inserts nothing: the rows are the same after it, and the
  only statement it issued is the SELECT of the pre-check.
\<close>

theorem create_duplicate:
  assumes "handle data \<in> set (map handle (companies d))"
  shows "fst (create data d) = Inl (BadRequestError (''Duplicate company: '' @ handle data))
       \<and> companies (snd (create data d)) = companies d
       \<and> queries (snd (create data d)) = queries d @ [SelectHandle (handle data)]"
  using assms
  by (auto simp: create_def select_handle_def issue_def filter_empty_conv)

theorem create_duplicate_witness:
  "handle acme \<in> set (map handle (companies store1))
   \<and> fst (create acme store1) = Inl (BadRequestError ''Duplicate company: acme'')
   \<and> companies (snd (create acme store1)) = [acme]
   \<and> queries (snd (create acme store1)) = [SelectHandle ''acme'']"
proof -
  have h: "handle acme \<in> set (map handle (companies store1))"
    by (simp add: store1_def)
  show ?thesis
    using h create_duplicate [OF h] by (simp add: store1_def acme_def)
qed



text \<open>
  \<^bold>\<open>C4.\<close> When both bounds are given and \<open>minEmployees > maxEmployees\<close>,
  \<open>findAll\<close> throws the BadRequestError of the invalid filter and hands back the store
  as it got it: no statement is issued, so the table is not read.
\<close>

theorem findAll_inverted:
  assumes "mn > mx"
  shows "findAll nm (Some mn) (Some mx) d =
    (Inl (BadRequestError ''minEmployees cannot be greater than maxEmployees''), d)"
  using assms by (simp add: findAll_def Number_def)

theorem findAll_inverted_witness:
  "(50::int) > 10
   \<and> findAll None (Some 50) (Some 10) store1 =
       (Inl (BadRequestError ''minEmployees cannot be greater than maxEmployees''), store1)
   \<and> queries (snd (findAll None (Some 50) (Some 10) store1)) = []"
proof -
  have h: "(50::int) > 10" by simp
  show ?thesis
    using h findAll_inverted [OF h, of None store1] by (simp add: store1_def)
qed




text \<open>
  \<^bold>\<open>C6 (amended).\<close> With a name that has none of the characters \<^verbatim>\<open>%\<close>,
  \<^verbatim>\<open>_\<close> and backslash, and with no bound, \<open>findAll\<close> returns, in ascending name
  order, exactly the companies whose name contains the filter string as a
  case-insensitive substring.
\<close>

theorem findAll_name:
  assumes "plain n"
  shows "\<exists>rows. fst (findAll (Some n) None None d) = Inr rows
           \<and> sorted (map name rows)
           \<and> mset rows = mset (filter (\<lambda>c. contains_ci n (name c)) (companies d))"
proof (cases "n = []")
  case True
  have "substring [] t" for t
    by (cases t) simp_all
  then have "contains_ci [] s" for s
    by (simp add: contains_ci_def)
  then show ?thesis
    using True
    by (simp add: findAll_def Number_def truthy_num_def truthy_str_def select_all_def
        sorted_order_by_name mset_order_by_name)
next
  case False
  have eq: "ilike (name c) (CHR ''%'' # n @ ''%'') = contains_ci n (name c)" for c :: company
    using ilike_contains [OF assms, of "name c"] by simp
  show ?thesis
    using False
    by (simp add: findAll_def Number_def truthy_num_def truthy_str_def findAllByName_def
        select_by_name_def template_def sorted_order_by_name mset_order_by_name eq)
qed

theorem findAll_name_witness:
  "plain ''net''
   \<and> contains_ci ''net'' (name acme) \<and> contains_ci ''net'' (name zed)
   \<and> (\<exists>rows. fst (findAll (Some ''net'') None None store2) = Inr rows
          \<and> sorted (map name rows) \<and> mset rows = mset [acme, zed])"
proof -
  have h: "plain ''net''"
    by (simp add: plain_def wildcard_def)
  have c: "contains_ci ''net'' (name acme)" "contains_ci ''net'' (name zed)"
    by (simp_all add: contains_ci_def lower_def acme_def zed_def)
  have ev: "filter (\<lambda>c. contains_ci ''net'' (name c)) (companies store2) = [acme, zed]"
    using c by (simp add: store2_def)
  show ?thesis
    using h c findAll_name [OF h, of store2] unfolding ev by blast
qed

text \<open>
  As C6 was first stated, for every name, it fails at \<^verbatim>\<open>findAll({name: "_"})\<close>:
  the pattern is \<^verbatim>\<open>%_%\<close>, which every name of at least one character matches,
  and the call returns a company whose name has no underscore.
\<close>

theorem findAll_name_counterexample:
  "fst (findAll (Some ''_'') None None store1) = Inr [acme]
   \<and> \<not> contains_ci ''_'' (name acme)"
  by (simp add: findAll_def Number_def truthy_num_def truthy_str_def findAllByName_def
      select_by_name_def template_def order_by_name_def store1_def ilike_def lower_def
      contains_ci_def acme_def)










end
